theory Spec2Isabelle
  imports Complex_Main
begin

section \<open>Data model\<close>

text \<open>
  The program is \<^verbatim>\<open>protractor.py\<close>. Its geometry helpers work on the toolkit's two point
  types: \<^verbatim>\<open>QPoint\<close> (integer widget coordinates) and \<^verbatim>\<open>QPointF\<close> (floating-point
  coordinates). Python's integers are modelled as \<open>int\<close>. A finite double is read as the
  \<open>real\<close> it denotes, with \<open>0\<close> standing for \<open>+0.0\<close>: the rounding of finite results is not
  modelled. The special values of doubles (the negative zero, the infinities an overflow
  produces, and NaN) are modelled in the type \<open>pyfloat\<close> below, in the places where they
  decide what the code returns or raises.
\<close>

datatype QPoint = QPoint (qx: int) (qy: int)


text \<open>\<^verbatim>\<open>QPoint.__sub__\<close>, \<^verbatim>\<open>QPoint.__add__\<close>: componentwise.\<close>

definition QPoint_sub :: "QPoint \<Rightarrow> QPoint \<Rightarrow> QPoint" where
  "QPoint_sub a b = QPoint (qx a - qx b) (qy a - qy b)"

definition QPoint_add :: "QPoint \<Rightarrow> QPoint \<Rightarrow> QPoint" where
  "QPoint_add a b = QPoint (qx a + qx b) (qy a + qy b)"











text \<open>The geometry of a widget: position of its top-left corner and its size.\<close>

record QWidget =
  w_x :: int
  w_y :: int
  w_width :: int
  w_height :: int

definition pos :: "QWidget \<Rightarrow> QPoint" where
  "pos wd = QPoint (w_x wd) (w_y wd)"

definition move :: "QWidget \<Rightarrow> QPoint \<Rightarrow> QWidget" where
  "move wd p = wd\<lparr>w_x := qx p, w_y := qy p\<rparr>"

section \<open>Python floats\<close>


















text \<open>
  \<^verbatim>\<open>math.atan2(y, x)\<close> on real arguments: the angle of the vector \<open>(x, y)\<close>, by quadrant,
  with \<open>atan2 0 0 = 0\<close> as the C library has it.
\<close>

definition atan2 :: "real \<Rightarrow> real \<Rightarrow> real" where
  "atan2 y x =
     (if 0 < x then arctan (y / x)
      else if x < 0 then (if 0 \<le> y then arctan (y / x) + pi else arctan (y / x) - pi)
      else if 0 < y then pi / 2
      else if y < 0 then - (pi / 2)
      else 0)"





definition digit_char :: "nat \<Rightarrow> char" where
  "digit_char d = ''0123456789'' ! d"

fun decimal :: "nat \<Rightarrow> string" where
  "decimal n = (if n < 10 then [digit_char n] else decimal (n div 10) @ [digit_char (n mod 10)])"


section \<open>Geometry utilities\<close>

text \<open>
  \<^verbatim>\<open>threePointAngle\<close>, lines 32-37, on integer points: the products, the sum and the
  difference are exact integers, converted to floats without a negative zero, so that
  \<^verbatim>\<open>math.atan2\<close> is \<open>atan2\<close> on the reals here.
\<close>

definition threePointAngle :: "QPoint \<Rightarrow> QPoint \<Rightarrow> QPoint \<Rightarrow> real" where
  "threePointAngle p1 center p2 =
     (let d1 = QPoint_sub p1 center;
          d2 = QPoint_sub p2 center;
          dot = qx d1 * qx d2 + qy d1 * qy d2;
          det = qx d1 * qy d2 - qy d1 * qx d2
      in atan2 (of_int det) (of_int dot))"







section \<open>Handle and Protractor\<close>

text \<open>
  \<^verbatim>\<open>Handle.__init__\<close> gives every handle the geometry \<open>(300, 300, 31, 31)\<close>;
  \<^verbatim>\<open>Protractor.__init__\<close> then moves the three handles to their default places and leaves
  the class attribute \<^verbatim>\<open>angleInvert\<close> at \<open>False\<close>.
\<close>

definition Handle_init :: QWidget where
  "Handle_init = \<lparr>w_x = 300, w_y = 300, w_width = 31, w_height = 31\<rparr>"

record Protractor =
  handleC :: QWidget
  handle1 :: QWidget
  handle2 :: QWidget
  angleInvert :: bool

definition Protractor_init :: Protractor where
  "Protractor_init =
     \<lparr>handleC = move Handle_init (QPoint 50 200),
      handle1 = move Handle_init (QPoint 200 200),
      handle2 = move Handle_init (QPoint 200 50),
      angleInvert = False\<rparr>"

text \<open>
  \<^verbatim>\<open>Protractor.updateDisplay\<close>, lines 154-162: the value of \<^verbatim>\<open>angleDeg\<close> that line 163
  formats into the label text.
\<close>

definition updateDisplay :: "Protractor \<Rightarrow> real" where
  "updateDisplay s =
     (let angle = threePointAngle (pos (handle1 s)) (pos (handleC s)) (pos (handle2 s));
          angleDeg = 180 * angle / pi;
          angleDeg = (if angleInvert s then 180 - angleDeg else angleDeg);
          angleDeg = (if angleDeg > 180 then angleDeg - 360 else angleDeg)
      in angleDeg)"



text \<open>
  \<^verbatim>\<open>Protractor.mouseMoveEvent\<close>, lines 139-145: dragging the overlay moves every child
  widget by the same difference. \<^verbatim>\<open>Handle.mouseMoveEvent\<close>, lines 106-108, moves one
  handle alone; here the handle is the center one.
\<close>

definition Protractor_mouseMoveEvent :: "Protractor \<Rightarrow> QPoint \<Rightarrow> Protractor" where
  "Protractor_mouseMoveEvent s diff =
     s\<lparr>handleC := move (handleC s) (QPoint_add (pos (handleC s)) diff),
       handle1 := move (handle1 s) (QPoint_add (pos (handle1 s)) diff),
       handle2 := move (handle2 s) (QPoint_add (pos (handle2 s)) diff)\<rparr>"

definition dragCenterHandle :: "Protractor \<Rightarrow> QPoint \<Rightarrow> Protractor" where
  "dragCenterHandle s diff =
     s\<lparr>handleC := move (handleC s) (QPoint_add (pos (handleC s)) diff)\<rparr>"

text \<open>\<^verbatim>\<open>Protractor.mouseDoubleClickEvent\<close>, lines 150-152.\<close>

definition mouseDoubleClickEvent :: "Protractor \<Rightarrow> Protractor" where
  "mouseDoubleClickEvent s = s\<lparr>angleInvert := \<not> angleInvert s\<rparr>"

section \<open>Vocabulary of the specification\<close>

text \<open>
  The definitions of this section do not come from the source: they name the notions the
  properties below are stated in.
\<close>

text \<open>The arms lie on one line through the center, on opposite sides of it.\<close>

definition straightLine :: "QPoint \<Rightarrow> QPoint \<Rightarrow> QPoint \<Rightarrow> bool" where
  "straightLine p1 center p2 =
     (let d1 = QPoint_sub p1 center;
          d2 = QPoint_sub p2 center
      in qx d1 * qy d2 - qy d1 * qx d2 = 0 \<and> qx d1 * qx d2 + qy d1 * qy d2 < 0)"

text \<open>An overlay whose handles have been moved to the given places.\<close>

definition Protractor_at :: "QPoint \<Rightarrow> QPoint \<Rightarrow> QPoint \<Rightarrow> bool \<Rightarrow> Protractor" where
  "Protractor_at c p1 p2 invert =
     \<lparr>handleC = move Handle_init c, handle1 = move Handle_init p1,
      handle2 = move Handle_init p2, angleInvert = invert\<rparr>"












section \<open>The angle function\<close>

lemma atan2_cases:
  "0 < x \<Longrightarrow> atan2 y x = arctan (y / x)"
  "x < 0 \<Longrightarrow> 0 \<le> y \<Longrightarrow> atan2 y x = arctan (y / x) + pi"
  "x < 0 \<Longrightarrow> y < 0 \<Longrightarrow> atan2 y x = arctan (y / x) - pi"
  "0 < y \<Longrightarrow> atan2 y 0 = pi / 2"
  "y < 0 \<Longrightarrow> atan2 y 0 = - (pi / 2)"
  "atan2 0 0 = 0"
  by (simp_all add: atan2_def)

lemma atan2_gt: "- pi < atan2 y x"
proof -
  have a: "- (pi / 2) < arctan (y / x)" by (rule arctan_lbound)
  have b: "0 < pi" by (rule pi_gt_zero)
  have c: "x < 0 \<Longrightarrow> y < 0 \<Longrightarrow> 0 < arctan (y / x)"
    by (simp add: divide_neg_neg)
  consider "0 < x" | "x < 0" "0 \<le> y" | "x < 0" "y < 0"
    | "x = 0" "0 < y" | "x = 0" "y < 0" | "x = 0" "y = 0" by linarith
  then show ?thesis
  proof cases
    case 1 then show ?thesis using a b atan2_cases(1) [of x y] by linarith
  next
    case 2 then show ?thesis using a b atan2_cases(2) [of x y] by linarith
  next
    case 3 then show ?thesis using c b atan2_cases(3) [of x y] by linarith
  next
    case 4 then show ?thesis by (simp add: atan2_def)
  next
    case 5 then show ?thesis by (simp add: atan2_def)
  next
    case 6 then show ?thesis using b atan2_cases(6) by simp
  qed
qed

lemma atan2_le: "atan2 y x \<le> pi"
proof -
  have a: "arctan (y / x) < pi / 2" by (rule arctan_ubound)
  have b: "0 < pi" by (rule pi_gt_zero)
  have c: "x < 0 \<Longrightarrow> 0 \<le> y \<Longrightarrow> arctan (y / x) \<le> 0"
    by (simp add: divide_nonneg_neg)
  consider "0 < x" | "x < 0" "0 \<le> y" | "x < 0" "y < 0"
    | "x = 0" "0 < y" | "x = 0" "y < 0" | "x = 0" "y = 0" by linarith
  then show ?thesis
  proof cases
    case 1 then show ?thesis using a b atan2_cases(1) [of x y] by linarith
  next
    case 2 then show ?thesis using c b atan2_cases(2) [of x y] by linarith
  next
    case 3 then show ?thesis using a b atan2_cases(3) [of x y] by linarith
  next
    case 4 then show ?thesis by (simp add: atan2_def)
  next
    case 5 then have "atan2 y x = - (pi / 2)" by (simp add: atan2_def)
    then show ?thesis using b by linarith
  next
    case 6 then show ?thesis using b atan2_cases(6) by simp
  qed
qed

text \<open>
  The quadrant definition is the polar angle: with \<open>r\<close> the length of the vector \<open>(x, y)\<close>,
  \<open>r * cos (atan2 y x) = x\<close> and \<open>r * sin (atan2 y x) = y\<close>.
\<close>

lemma polar_pos:
  fixes x y :: real
  assumes "0 < x"
  shows "sqrt (x\<^sup>2 + y\<^sup>2) * cos (arctan (y / x)) = x"
    and "sqrt (x\<^sup>2 + y\<^sup>2) * sin (arctan (y / x)) = y"
proof -
  have r: "sqrt (x\<^sup>2 + y\<^sup>2) = x * sqrt (1 + (y / x)\<^sup>2)"
  proof -
    have "x\<^sup>2 + y\<^sup>2 = x\<^sup>2 * (1 + (y / x)\<^sup>2)"
      using assms by (simp add: field_simps power2_eq_square)
    then have "sqrt (x\<^sup>2 + y\<^sup>2) = sqrt (x\<^sup>2) * sqrt (1 + (y / x)\<^sup>2)"
      by (simp add: real_sqrt_mult)
    then show ?thesis using assms by simp
  qed
  have p: "0 < sqrt (1 + (y / x)\<^sup>2)"
    by (simp add: add_pos_nonneg)
  show "sqrt (x\<^sup>2 + y\<^sup>2) * cos (arctan (y / x)) = x"
    unfolding r cos_arctan using p by simp
  show "sqrt (x\<^sup>2 + y\<^sup>2) * sin (arctan (y / x)) = y"
    unfolding r sin_arctan using p assms by simp
qed

lemma polar_neg:
  fixes x y :: real
  assumes "x < 0"
  shows "sqrt (x\<^sup>2 + y\<^sup>2) * cos (arctan (y / x)) = - x"
    and "sqrt (x\<^sup>2 + y\<^sup>2) * sin (arctan (y / x)) = - y"
  using polar_pos [of "- x" "- y"] assms by simp_all

lemma atan2_polar:
  "sqrt (x\<^sup>2 + y\<^sup>2) * cos (atan2 y x) = x \<and> sqrt (x\<^sup>2 + y\<^sup>2) * sin (atan2 y x) = y"
proof -
  consider "0 < x" | "x < 0" "0 \<le> y" | "x < 0" "y < 0"
    | "x = 0" "0 < y" | "x = 0" "y < 0" | "x = 0" "y = 0" by linarith
  then show ?thesis
  proof cases
    case 1 then show ?thesis using polar_pos [of x y] by (simp add: atan2_def)
  next
    case 2 then show ?thesis using polar_neg [of x y] by (simp add: atan2_def)
  next
    case 3 then show ?thesis using polar_neg [of x y] by (simp add: atan2_def)
  next
    case 4 then show ?thesis by (simp add: atan2_def)
  next
    case 5 then show ?thesis by (simp add: atan2_def)
  next
    case 6 then show ?thesis by (simp add: atan2_def)
  qed
qed

lemma atan2_zero: "atan2 0 0 = 0" by (simp add: atan2_def)

lemma atan2_uminus: "\<not> (y = 0 \<and> x < 0) \<Longrightarrow> atan2 (- y) x = - atan2 y x"
  by (auto simp: atan2_def arctan_minus)



lemmas eval_defs = Protractor_at_def Protractor_init_def Handle_init_def move_def pos_def
  updateDisplay_def threePointAngle_def QPoint_sub_def QPoint_add_def atan2_def Let_def
  dragCenterHandle_def Protractor_mouseMoveEvent_def

text \<open>
  Claim C1. For all integer points, \<open>threePointAngle p1 center p2\<close> is \<open>atan2\<close> of the
  cross product and the dot product of \<open>d1 = p1 - center\<close> and \<open>d2 = p2 - center\<close>; the
  result lies in the half-open interval from \<open>-pi\<close> (excluded) to \<open>pi\<close> (included); and
  when \<open>p1\<close> or \<open>p2\<close> coincides with \<open>center\<close> the result is \<open>0\<close>. The function has no
  error branch.
\<close>

theorem threePointAngle_atan2_range:
  "threePointAngle p1 center p2 =
     atan2 (of_int ((qx p1 - qx center) * (qy p2 - qy center) - (qy p1 - qy center) * (qx p2 - qx center)))
           (of_int ((qx p1 - qx center) * (qx p2 - qx center) + (qy p1 - qy center) * (qy p2 - qy center)))
   \<and> - pi < threePointAngle p1 center p2 \<and> threePointAngle p1 center p2 \<le> pi
   \<and> (p1 = center \<or> p2 = center \<longrightarrow> threePointAngle p1 center p2 = 0)"
proof -
  have 1: "threePointAngle p1 center p2 =
     atan2 (of_int ((qx p1 - qx center) * (qy p2 - qy center) - (qy p1 - qy center) * (qx p2 - qx center)))
           (of_int ((qx p1 - qx center) * (qx p2 - qx center) + (qy p1 - qy center) * (qy p2 - qy center)))"
    by (simp add: threePointAngle_def QPoint_sub_def)
  have 2: "- pi < threePointAngle p1 center p2"
    unfolding threePointAngle_def Let_def by (rule atan2_gt)
  have 3: "threePointAngle p1 center p2 \<le> pi"
    unfolding threePointAngle_def Let_def by (rule atan2_le)
  have 4: "p1 = center \<or> p2 = center \<longrightarrow> threePointAngle p1 center p2 = 0"
    by (auto simp: threePointAngle_def QPoint_sub_def atan2_zero)
  show ?thesis using 1 2 3 4 by blast
qed

theorem threePointAngle_atan2_range_witness:
  "threePointAngle (QPoint 3 4) (QPoint 3 4) (QPoint 7 1) = 0
   \<and> threePointAngle (QPoint 7 1) (QPoint 3 4) (QPoint 3 4) = 0"
  using threePointAngle_atan2_range [of "QPoint 3 4" "QPoint 3 4" "QPoint 7 1"]
        threePointAngle_atan2_range [of "QPoint 7 1" "QPoint 3 4" "QPoint 3 4"]
  by simp

text \<open>
  Claim C3 (antisymmetry), as the specification states it, fails when the three points are
  on one line with the center between the arms: both orders give \<open>pi\<close>.
\<close>

theorem threePointAngle_antisym_counterexample:
  "QPoint (- 100) 0 \<noteq> QPoint 0 0 \<and> QPoint 100 0 \<noteq> QPoint 0 0 \<and>
   threePointAngle (QPoint (- 100) 0) (QPoint 0 0) (QPoint 100 0)
     \<noteq> - threePointAngle (QPoint 100 0) (QPoint 0 0) (QPoint (- 100) 0)"
  by (simp add: threePointAngle_def QPoint_sub_def atan2_def)

text \<open>
  Claim C3, amended. For all points \<open>p1\<close> and \<open>p2\<close> distinct from \<open>center\<close> that are not
  on one line through \<open>center\<close> on opposite sides of it,
  \<open>threePointAngle p1 center p2 = - threePointAngle p2 center p1\<close>.
\<close>

theorem threePointAngle_antisym:
  assumes "p1 \<noteq> center" "p2 \<noteq> center" "\<not> straightLine p1 center p2"
  shows "threePointAngle p1 center p2 = - threePointAngle p2 center p1"
proof -
  define dot where "dot = (qx p1 - qx center) * (qx p2 - qx center) + (qy p1 - qy center) * (qy p2 - qy center)"
  define det where "det = (qx p1 - qx center) * (qy p2 - qy center) - (qy p1 - qy center) * (qx p2 - qx center)"
  have a: "threePointAngle p1 center p2 = atan2 (of_int det) (of_int dot)"
    by (simp add: threePointAngle_def QPoint_sub_def dot_def det_def)
  have b: "threePointAngle p2 center p1 = atan2 (- of_int det) (of_int dot)"
    by (simp add: threePointAngle_def QPoint_sub_def dot_def det_def algebra_simps)
  have "\<not> (det = 0 \<and> dot < 0)"
    using assms(3) by (simp add: straightLine_def QPoint_sub_def dot_def det_def Let_def)
  then have c: "\<not> (real_of_int det = 0 \<and> real_of_int dot < 0)"
    by simp
  have "atan2 (- of_int det) (of_int dot) = - atan2 (of_int det) (of_int dot)"
    using c by (rule atan2_uminus)
  then show ?thesis using a b by simp
qed

theorem threePointAngle_antisym_witness:
  "threePointAngle (QPoint 100 0) (QPoint 0 0) (QPoint 0 100) = - threePointAngle (QPoint 0 100) (QPoint 0 0) (QPoint 100 0)"
  using threePointAngle_antisym [of "QPoint 100 0" "QPoint 0 0" "QPoint 0 100"]
  by (simp add: straightLine_def QPoint_sub_def)

subsection \<open>The angle of the handle centers\<close>



















subsection \<open>Moving the handles, and the default placement\<close>

text \<open>
  Claim C8, as the specification states it, fails: dragging the center handle alone from
  \<open>(0, 0)\<close> to \<open>(50, 50)\<close>, with the arms at \<open>(100, 0)\<close> and \<open>(0, 100)\<close>, turns the
  displayed angle from 90 into 180.
\<close>

theorem drag_center_counterexample:
  "threePointAngle (QPoint 100 0) (QPoint_add (QPoint 0 0) (QPoint 50 50)) (QPoint 0 100)
     \<noteq> threePointAngle (QPoint 100 0) (QPoint 0 0) (QPoint 0 100)
   \<and> updateDisplay (dragCenterHandle (Protractor_at (QPoint 0 0) (QPoint 100 0) (QPoint 0 100) False) (QPoint 50 50))
     \<noteq> updateDisplay (Protractor_at (QPoint 0 0) (QPoint 100 0) (QPoint 0 100) False)"
  by (simp add: eval_defs)

text \<open>
  Claim C8, amended. For every handle configuration and every offset, moving all three
  handles by the same offset (as dragging the overlay does) leaves the angle computed by
  \<open>threePointAngle\<close>, and hence the displayed angle, unchanged.
\<close>

theorem translation_invariance:
  "threePointAngle (QPoint_add p1 d) (QPoint_add center d) (QPoint_add p2 d)
     = threePointAngle p1 center p2
   \<and> updateDisplay (Protractor_mouseMoveEvent s d) = updateDisplay s"
  by (simp add: threePointAngle_def QPoint_sub_def QPoint_add_def updateDisplay_def
        Protractor_mouseMoveEvent_def move_def pos_def)

text \<open>
  Claim C9, as the specification states it, fails: the default positions are center
  \<open>(50, 200)\<close>, arm 1 \<open>(200, 200)\<close> and arm 2 \<open>(200, 50)\<close>, and the angle at the center is
  not of absolute value 90 degrees.
\<close>

theorem default_angle_counterexample:
  "\<bar>180 * threePointAngle (pos (handle1 Protractor_init)) (pos (handleC Protractor_init)) (pos (handle2 Protractor_init)) / pi\<bar> \<noteq> 90
   \<and> \<bar>updateDisplay Protractor_init\<bar> \<noteq> 90"
  by (simp add: eval_defs arctan_minus arctan_one)

text \<open>
  Claim C9, amended. At construction the handles are placed at the fixed positions center
  \<open>(50, 200)\<close>, arm 1 \<open>(200, 200)\<close>, arm 2 \<open>(200, 50)\<close>; the angle computed from them is
  \<open>- pi / 4\<close>, displayed as \<open>-45\<close> degrees; the right angle of the triangle is at arm 1.
\<close>

theorem default_angle:
  "pos (handleC Protractor_init) = QPoint 50 200 \<and> pos (handle1 Protractor_init) = QPoint 200 200
   \<and> pos (handle2 Protractor_init) = QPoint 200 50
   \<and> threePointAngle (pos (handle1 Protractor_init)) (pos (handleC Protractor_init)) (pos (handle2 Protractor_init)) = - (pi / 4)
   \<and> updateDisplay Protractor_init = - 45
   \<and> threePointAngle (pos (handleC Protractor_init)) (pos (handle1 Protractor_init)) (pos (handle2 Protractor_init)) = pi / 2"
  by (simp add: eval_defs arctan_minus arctan_one)

section \<open>The displayed angle\<close>







lemma decimal_180: "decimal 180 = ''180''"
  by (simp add: digit_char_def)










section \<open>Shortened lines\<close>





section \<open>Points and rectangles along a line\<close>







































end
